theory Spec2Isabelle
  imports Main
begin

section \<open>Values, records and formatters\<close>

text \<open>
  A Python \<open>str\<close> is modelled as a HOL \<open>string\<close>: a list of characters, each a code
  point below 256.  The program treats every character other than the comma, the double
  quote, carriage return and line feed alike, so nothing depends on code points beyond
  that range.  The two accented letters of the CSV column names are written by their
  code points (\<open>0xE7\<close> and \<open>0xE9\<close>).

  An attribute of a \<open>Record\<close> holds whatever the constructor was given.  The program
  itself passes a \<open>str\<close> (a line of user input, a CSV cell) or \<open>None\<close> (the value
  \<open>csv.DictReader\<close> gives to a column that a short row does not reach).  Any other
  object is \<open>PyObject\<close>, given by the text that \<open>str\<close> returns for it.
\<close>

datatype pyval = PyNone | PyStr string | PyObject string

text \<open>What an f-string replacement field \<open>{v}\<close> renders for a value.\<close>

fun py_format :: "pyval \<Rightarrow> string" where
  "py_format PyNone = ''None''"
| "py_format (PyStr s) = s"
| "py_format (PyObject s) = s"

text \<open>The exceptions that the modelled statements can raise, each with its message.\<close>

datatype exn =
    FileNotFoundError
  | OSError string
  | CsvError string
  | KeyError string
  | AttributeError string
  | TypeError string
  | ValueError string
  | NotImplementedError string
  | EOFError

record Record =
  source :: pyval
  latin_name :: pyval
  english_name :: pyval
  french_name :: pyval
  year :: pyval
  month :: pyval
  number_otoliths :: pyval

definition mk_Record ::
  "pyval \<Rightarrow> pyval \<Rightarrow> pyval \<Rightarrow> pyval \<Rightarrow> pyval \<Rightarrow> pyval \<Rightarrow> pyval \<Rightarrow> Record" where
  "mk_Record s l e f y m n =
     \<lparr>source = s, latin_name = l, english_name = e, french_name = f,
      year = y, month = m, number_otoliths = n\<rparr>"

text \<open>
  A formatter is any object with a \<open>format_record\<close> method: a function from a record
  to the string it returns or the exception it raises.  The source has the superclass,
  whose method raises, and one subclass.
\<close>

type_synonym formatter = "Record \<Rightarrow> exn + string"

definition RecordFormatter_format_record :: formatter where
  "RecordFormatter_format_record record =
     Inl (NotImplementedError ''Subclasses must implement format_record method'')"

definition DefaultRecordFormatter_format_record :: formatter where
  "DefaultRecordFormatter_format_record record =
     Inr (''Source: '' @ py_format (source record)
        @ '', Latin Name: '' @ py_format (latin_name record)
        @ '', English Name: '' @ py_format (english_name record)
        @ '', '' @ ''French Name: '' @ py_format (french_name record)
        @ '', Year: '' @ py_format (year record)
        @ '', Month: '' @ py_format (month record)
        @ '', '' @ ''Number of Otoliths: '' @ py_format (number_otoliths record))"

section \<open>The environment: console and files\<close>

text \<open>
  What the process writes to the console, in order: a \<open>print\<close> call, the prompt of an
  \<open>input\<close> call, and the bar chart handed to the plotting library (the labels and
  heights of the bars, the axis label and the title).
\<close>

datatype console_event =
    Print string
  | Prompt string
  | BarChart "pyval list" "nat list" string string

text \<open>
  A path of the file system either names no file, or cannot be opened (\<open>open\<close> raises
  an \<open>OSError\<close> other than \<open>FileNotFoundError\<close>, with the given message), or holds
  text.  The text is the decoded content of the file, before any newline translation.
\<close>

datatype file_status = Missing | Denied string | Content string

text \<open>
  The plotting library is outside the program: \<open>plt_raises\<close> tells, for the labels and
  heights it is given, whether drawing raises (\<open>None\<close>: the chart is drawn).

  So is what the interpreter answers when a record is asked for an attribute that
  \<open>__init__\<close> does not set: \<open>object_getattr\<close> gives, for the record and the name, the
  value of an attribute that the object has from its class (\<open>__class__\<close>,
  \<open>__module__\<close>, ...), or the exception that the name leads to (\<open>AttributeError\<close>
  when there is no such attribute, \<open>TypeError\<close> for a value that cannot be counted,
  as \<open>__dict__\<close>).
\<close>

record env =
  stdin :: "string list"
  stdout :: "console_event list"
  files :: "string \<Rightarrow> file_status"
  plt_raises :: "pyval list \<Rightarrow> nat list \<Rightarrow> exn option"
  object_getattr :: "Record \<Rightarrow> string \<Rightarrow> exn + pyval"

definition print :: "string \<Rightarrow> env \<Rightarrow> env" where
  "print s w = w\<lparr>stdout := stdout w @ [Print s]\<rparr>"

text \<open>
  \<open>input(prompt)\<close> writes the prompt and returns the next line of the standard input,
  or raises \<open>EOFError\<close> when there is none (the prompt is on the console by then:
  \<open>prompted\<close>).
\<close>

definition prompted :: "string \<Rightarrow> env \<Rightarrow> env" where
  "prompted prompt w = w\<lparr>stdout := stdout w @ [Prompt prompt]\<rparr>"

definition py_input :: "string \<Rightarrow> env \<Rightarrow> exn + (string \<times> env)" where
  "py_input prompt w =
     (case stdin w of
        [] \<Rightarrow> Inl EOFError
      | l # ls \<Rightarrow> Inr (l, (prompted prompt w)\<lparr>stdin := ls\<rparr>))"

text \<open>
  \<open>str(e)\<close>, as the handlers print it.  \<open>KeyError\<close> carries the missing key and
  \<open>ValueError\<close> the text that \<open>int\<close> rejected; the program prints neither a
  \<open>FileNotFoundError\<close> (caught by its class) nor a \<open>ValueError\<close> (never caught).
\<close>

fun exn_str :: "exn \<Rightarrow> string" where
  "exn_str FileNotFoundError = ''[Errno 2] No such file or directory''"
| "exn_str (OSError msg) = msg"
| "exn_str (CsvError msg) = msg"
| "exn_str (KeyError k) = [CHR 0x27] @ k @ [CHR 0x27]"
| "exn_str (AttributeError msg) = msg"
| "exn_str (TypeError msg) = msg"
| "exn_str (ValueError s) = ''invalid literal for int() with base 10: '' @ [CHR 0x27] @ s @ [CHR 0x27]"
| "exn_str (NotImplementedError msg) = msg"
| "exn_str EOFError = ''EOF when reading a line''"

text \<open>Sequencing of statements that may raise.\<close>

definition bind_exn :: "exn + 'a \<Rightarrow> ('a \<Rightarrow> exn + 'b) \<Rightarrow> exn + 'b" where
  "bind_exn m f = (case m of Inl e \<Rightarrow> Inl e | Inr x \<Rightarrow> f x)"

section \<open>The business layer\<close>

record BusinessLayer =
  filename :: string
  records :: "Record list"
  formatter :: formatter

text \<open>
  \<open>display_record\<close>: the only statement that can raise is the call of the formatter;
  its exception leaves the method.
\<close>

definition display_record :: "int \<Rightarrow> BusinessLayer \<Rightarrow> env \<Rightarrow> exn + (BusinessLayer \<times> env)" where
  "display_record index self w =
     (if 0 \<le> index \<and> index < int (length (records self)) then
        (case formatter self (records self ! nat index) of
           Inl e \<Rightarrow> Inl e
         | Inr formatted_record \<Rightarrow> Inr (self, print formatted_record w))
      else Inr (self, print ''Invalid record index.'' w))"

definition add_record :: "Record \<Rightarrow> BusinessLayer \<Rightarrow> env \<Rightarrow> BusinessLayer \<times> env" where
  "add_record record self w =
     (self\<lparr>records := records self @ [record]\<rparr>, print ''Record added successfully.'' w)"

definition edit_record :: "int \<Rightarrow> Record \<Rightarrow> BusinessLayer \<Rightarrow> env \<Rightarrow> BusinessLayer \<times> env" where
  "edit_record index new_record self w =
     (if 0 \<le> index \<and> index < int (length (records self)) then
        (self\<lparr>records := (records self)[nat index := new_record]\<rparr>,
         print ''Record edited successfully.'' w)
      else (self, print ''Invalid record index.'' w))"

text \<open>
  \<open>del xs[i]\<close> for an index in range: the element at \<open>i\<close> goes and the later ones move
  down by one.  (The method checks the range first; the list is left alone otherwise.)
\<close>

fun del_item :: "'a list \<Rightarrow> nat \<Rightarrow> 'a list" where
  "del_item [] i = []"
| "del_item (x # xs) 0 = xs"
| "del_item (x # xs) (Suc i) = x # del_item xs i"

definition delete_record :: "int \<Rightarrow> BusinessLayer \<Rightarrow> env \<Rightarrow> BusinessLayer \<times> env" where
  "delete_record index self w =
     (if 0 \<le> index \<and> index < int (length (records self)) then
        (self\<lparr>records := del_item (records self) (nat index)\<rparr>,
         print ''Record deleted successfully.'' w)
      else (self, print ''Invalid record index.'' w))"

text \<open>\<open>str(n)\<close> for a natural number: its decimal digits.\<close>

definition digit_char :: "nat \<Rightarrow> char" where
  "digit_char d = char_of (48 + d)"

function str_nat :: "nat \<Rightarrow> string" where
  "str_nat n = (if n < 10 then [digit_char n] else str_nat (n div 10) @ [digit_char (n mod 10)])"
  by pat_completeness auto
termination
  by (relation "measure id") auto

declare str_nat.simps [simp del]

text \<open>
  \<open>display_records\<close>: the loop over \<open>enumerate(self.records)\<close>.  An exception of the
  formatter ends it.
\<close>

fun display_records_loop ::
  "(nat \<times> Record) list \<Rightarrow> BusinessLayer \<Rightarrow> env \<Rightarrow> exn + (BusinessLayer \<times> env)" where
  "display_records_loop [] self w = Inr (self, w)"
| "display_records_loop ((index, record) # rest) self w =
     (case display_record (int index) self (print (''Record '' @ str_nat (index + 1)) w) of
        Inl e \<Rightarrow> Inl e
      | Inr (self', w') \<Rightarrow>
          display_records_loop rest self'
            (if (index + 1) mod 10 = 0 then print ''Program by Ben Nguyen'' w' else w'))"

definition display_records :: "BusinessLayer \<Rightarrow> env \<Rightarrow> exn + (BusinessLayer \<times> env)" where
  "display_records self w =
     display_records_loop (zip [0 ..< length (records self)] (records self)) self w"

section \<open>Counting for the bar chart\<close>

text \<open>
  \<open>collections.Counter\<close> over a list: a dictionary from each element to the number of
  its occurrences, its keys in the order in which they were first seen.  The
  dictionary is an association list with one entry for each key.
\<close>

fun counter_add :: "('a \<times> nat) list \<Rightarrow> 'a \<Rightarrow> ('a \<times> nat) list" where
  "counter_add [] x = [(x, 1)]"
| "counter_add ((k, c) # kcs) x =
     (if k = x then (k, c + 1) # kcs else (k, c) # counter_add kcs x)"

definition Counter :: "'a list \<Rightarrow> ('a \<times> nat) list" where
  "Counter xs = foldl counter_add [] xs"

text \<open>
  \<open>getattr(record, name)\<close>.  The seven names that \<open>__init__\<close> sets give the attribute
  of the record; for every other name the answer is the interpreter's
  (\<open>object_getattr\<close>).
\<close>

definition getattr_Record :: "env \<Rightarrow> Record \<Rightarrow> string \<Rightarrow> exn + pyval" where
  "getattr_Record w record name =
     (if name = ''source'' then Inr (source record)
      else if name = ''latin_name'' then Inr (latin_name record)
      else if name = ''english_name'' then Inr (english_name record)
      else if name = ''french_name'' then Inr (french_name record)
      else if name = ''year'' then Inr (year record)
      else if name = ''month'' then Inr (month record)
      else if name = ''number_otoliths'' then Inr (number_otoliths record)
      else object_getattr w record name)"

text \<open>
  The message of the \<open>AttributeError\<close> for a name that a record does not have.
\<close>

definition no_attribute :: "string \<Rightarrow> exn" where
  "no_attribute name =
     AttributeError
       ([CHR 0x27] @ ''Record'' @ [CHR 0x27] @ '' object has no attribute ''
        @ [CHR 0x27] @ name @ [CHR 0x27])"

text \<open>The loop that fills \<open>x_values\<close>; the first failing \<open>getattr\<close> ends it.\<close>

fun x_values_of :: "env \<Rightarrow> Record list \<Rightarrow> string \<Rightarrow> exn + pyval list" where
  "x_values_of w [] x_column = Inr []"
| "x_values_of w (record # rest) x_column =
     bind_exn (getattr_Record w record x_column) (\<lambda>v.
     bind_exn (x_values_of w rest x_column) (\<lambda>vs. Inr (v # vs)))"

text \<open>\<open>str.lower\<close> on the characters below 256.\<close>

definition lower_char :: "char \<Rightarrow> char" where
  "lower_char c =
     (let n = (of_char c :: nat) in
      if (65 \<le> n \<and> n \<le> 90) \<or> (192 \<le> n \<and> n \<le> 214) \<or> (216 \<le> n \<and> n \<le> 222)
      then char_of (n + 32) else c)"

definition lower :: "string \<Rightarrow> string" where
  "lower s = map lower_char s"

definition column_display_names :: "(string \<times> string) list" where
  "column_display_names =
     [(''source'', ''Source''),
      (''latin_name'', ''Latin Name''),
      (''english_name'', ''English Name''),
      (''french_name'', ''French Name''),
      (''year'', ''Year''),
      (''month'', ''Month''),
      (''number_otoliths'', ''Number of Otoliths'')]"

definition chart_prompt :: string where
  "chart_prompt =
     ''Enter the column name for the x-axis (e.g., '' @ [CHR 0x27] @ ''source'' @ [CHR 0x27]
     @ '', '' @ [CHR 0x27] @ ''latin_name'' @ [CHR 0x27]
     @ '', '' @ [CHR 0x27] @ ''english_name'' @ [CHR 0x27]
     @ '', '' @ [CHR 0x27] @ ''french_name'' @ [CHR 0x27]
     @ '', '' @ [CHR 0x27] @ ''year'' @ [CHR 0x27]
     @ '', '' @ [CHR 0x27] @ ''month'' @ [CHR 0x27]
     @ '', '' @ [CHR 0x27] @ ''number_otoliths'' @ [CHR 0x27] @ ''): ''"

text \<open>
  \<open>generate_bar_chart\<close>: every exception of its body is caught and printed, the
  \<open>EOFError\<close> of \<open>input\<close> among them.
\<close>

definition generate_bar_chart :: "BusinessLayer \<Rightarrow> env \<Rightarrow> BusinessLayer \<times> env" where
  "generate_bar_chart self w =
     (let failed = (\<lambda>e w'. (self, print (''An error occurred while generating the bar chart: '' @ exn_str e) w'))
      in case py_input chart_prompt w of
        Inl e \<Rightarrow> failed e (prompted chart_prompt w)
      | Inr (x_column, w1) \<Rightarrow>
          (case x_values_of w1 (records self) x_column of
             Inl e \<Rightarrow> failed e w1
           | Inr x_values \<Rightarrow>
               (let x_counts = Counter x_values;
                    unique_x_values = map fst x_counts;
                    y_values = map snd x_counts;
                    x_label = (case map_of column_display_names (lower x_column) of
                                 None \<Rightarrow> x_column | Some d \<Rightarrow> d)
                in case plt_raises w1 unique_x_values y_values of
                     Some e \<Rightarrow> failed e w1
                   | None \<Rightarrow>
                       (self, w1\<lparr>stdout := stdout w1
                                @ [BarChart unique_x_values y_values x_label (''Count of '' @ x_label)]\<rparr>))))"

section \<open>The CSV collaborators\<close>

text \<open>
  The program reads and writes its files through Python's \<open>csv\<close> module with the
  default (\<open>excel\<close>) dialect: delimiter comma, quote character \<open>"\<close>, a quote inside a
  quoted field doubled, no escape character, minimal quoting, line terminator
  \<open>\r\n\<close>, not strict.  The definitions below follow the writer and the reader state
  machine of the module for that dialect.
\<close>

definition CR :: char where "CR = CHR 0x0D"
definition LF :: char where "LF = CHR 0x0A"
definition delimiter :: char where "delimiter = CHR '',''"
definition quotechar :: char where "quotechar = CHR 0x22"
definition lineterminator :: string where "lineterminator = [CR, LF]"

subsection \<open>\<open>csv.writer\<close>\<close>

text \<open>
  A field is quoted when it holds the delimiter, the quote character or a character of
  the line terminator; each quote character in it is doubled.  \<open>None\<close> is written as
  the empty field, and any other object as its text.
\<close>

definition must_quote :: "char \<Rightarrow> bool" where
  "must_quote c = (c = delimiter \<or> c = quotechar \<or> c \<in> set lineterminator)"

fun join_append_data :: "string \<Rightarrow> string" where
  "join_append_data [] = []"
| "join_append_data (c # cs) =
     (if c = quotechar then [quotechar, quotechar] else [c]) @ join_append_data cs"

definition join_append_str :: "string \<Rightarrow> string" where
  "join_append_str s =
     (if list_ex must_quote s then [quotechar] @ join_append_data s @ [quotechar] else s)"

definition join_append :: "pyval \<Rightarrow> string" where
  "join_append v =
     (case v of
        PyNone \<Rightarrow> []
      | PyStr s \<Rightarrow> join_append_str s
      | PyObject s \<Rightarrow> join_append_str s)"

fun join_fields :: "string list \<Rightarrow> string" where
  "join_fields [] = []"
| "join_fields [f] = f"
| "join_fields (f # g # fs) = f @ [delimiter] @ join_fields (g # fs)"

text \<open>
  \<open>writerow\<close>: the text of one row.  A row whose text would be empty although it has a
  field (a single empty field) is written as two quote characters.
\<close>

definition writerow :: "pyval list \<Rightarrow> string" where
  "writerow row =
     (let rec = join_fields (map join_append row)
      in (if row \<noteq> [] \<and> rec = [] then [quotechar, quotechar] else rec) @ lineterminator)"

subsection \<open>Reading a text file\<close>

text \<open>
  A file opened for reading without a \<open>newline\<close> argument is in universal-newlines
  mode: \<open>\r\n\<close> and a lone \<open>\r\<close> both arrive as \<open>\n\<close>.  The flag says that the
  previous character was a carriage return.
\<close>

fun translate_newlines :: "bool \<Rightarrow> string \<Rightarrow> string" where
  "translate_newlines pendingcr [] = []"
| "translate_newlines pendingcr (c # cs) =
     (if c = CR then LF # translate_newlines True cs
      else if c = LF then
        (if pendingcr then translate_newlines False cs else LF # translate_newlines False cs)
      else c # translate_newlines False cs)"

text \<open>
  Iterating over the file gives its lines, each with its final \<open>\n\<close> (the last one may
  have none).
\<close>

fun readlines :: "string \<Rightarrow> string \<Rightarrow> string list" where
  "readlines cur [] = (if cur = [] then [] else [cur])"
| "readlines cur (c # cs) =
     (if c = LF then (cur @ [c]) # readlines [] cs else readlines (cur @ [c]) cs)"

definition open_r_lines :: "string \<Rightarrow> string list" where
  "open_r_lines content = readlines [] (translate_newlines False content)"

subsection \<open>\<open>csv.reader\<close>\<close>

datatype ParserState =
    START_RECORD
  | START_FIELD
  | IN_FIELD
  | IN_QUOTED_FIELD
  | QUOTE_IN_QUOTED_FIELD
  | EAT_CRNL

record ReaderObj =
  state :: ParserState
  field :: string
  fields_list :: "string list"

definition field_limit :: nat where
  "field_limit = 131072"

definition parse_reset :: ReaderObj where
  "parse_reset = \<lparr>state = START_RECORD, field = [], fields_list = []\<rparr>"

definition parse_save_field :: "ReaderObj \<Rightarrow> ReaderObj" where
  "parse_save_field self = self\<lparr>fields_list := fields_list self @ [field self], field := []\<rparr>"

definition parse_add_char :: "ReaderObj \<Rightarrow> char \<Rightarrow> exn + ReaderObj" where
  "parse_add_char self c =
     (if field_limit \<le> length (field self)
      then Inl (CsvError ''field larger than field limit (131072)'')
      else Inr (self\<lparr>field := field self @ [c]\<rparr>))"

text \<open>
  One step of the state machine.  The character is \<open>None\<close> for the end-of-line mark
  that the reader feeds after the last character of each line.
\<close>

definition is_newline :: "char option \<Rightarrow> bool" where
  "is_newline c = (c = Some LF \<or> c = Some CR)"

definition end_of_record :: "ReaderObj \<Rightarrow> char option \<Rightarrow> ReaderObj" where
  "end_of_record self c =
     (parse_save_field self)\<lparr>state := (if c = None then START_RECORD else EAT_CRNL)\<rparr>"

definition process_START_FIELD :: "ReaderObj \<Rightarrow> char option \<Rightarrow> exn + ReaderObj" where
  "process_START_FIELD self c =
     (if is_newline c \<or> c = None then Inr (end_of_record self c)
      else if c = Some quotechar then Inr (self\<lparr>state := IN_QUOTED_FIELD\<rparr>)
      else if c = Some delimiter then Inr (parse_save_field self)
      else bind_exn (parse_add_char self (the c)) (\<lambda>self'. Inr (self'\<lparr>state := IN_FIELD\<rparr>)))"

definition parse_process_char :: "ReaderObj \<Rightarrow> char option \<Rightarrow> exn + ReaderObj" where
  "parse_process_char self c =
     (case state self of
        START_RECORD \<Rightarrow>
          (if c = None then Inr self
           else if is_newline c then Inr (self\<lparr>state := EAT_CRNL\<rparr>)
           else process_START_FIELD (self\<lparr>state := START_FIELD\<rparr>) c)
      | START_FIELD \<Rightarrow> process_START_FIELD self c
      | IN_FIELD \<Rightarrow>
          (if is_newline c \<or> c = None then Inr (end_of_record self c)
           else if c = Some delimiter then Inr ((parse_save_field self)\<lparr>state := START_FIELD\<rparr>)
           else parse_add_char self (the c))
      | IN_QUOTED_FIELD \<Rightarrow>
          (if c = None then Inr self
           else if c = Some quotechar then Inr (self\<lparr>state := QUOTE_IN_QUOTED_FIELD\<rparr>)
           else parse_add_char self (the c))
      | QUOTE_IN_QUOTED_FIELD \<Rightarrow>
          (if c = Some quotechar
           then bind_exn (parse_add_char self quotechar) (\<lambda>self'. Inr (self'\<lparr>state := IN_QUOTED_FIELD\<rparr>))
           else if c = Some delimiter then Inr ((parse_save_field self)\<lparr>state := START_FIELD\<rparr>)
           else if is_newline c \<or> c = None then Inr (end_of_record self c)
           else bind_exn (parse_add_char self (the c)) (\<lambda>self'. Inr (self'\<lparr>state := IN_FIELD\<rparr>)))
      | EAT_CRNL \<Rightarrow>
          (if is_newline c then Inr self
           else if c = None then Inr (self\<lparr>state := START_RECORD\<rparr>)
           else Inl (CsvError
                  (''new-line character seen in unquoted field - do you need to open the file with newline=''
                   @ [CHR 0x27, CHR 0x27] @ ''?''))))"

text \<open>The characters of one line, then the end-of-line mark.\<close>

fun process_line :: "ReaderObj \<Rightarrow> string \<Rightarrow> exn + ReaderObj" where
  "process_line self [] = parse_process_char self None"
| "process_line self (c # cs) =
     bind_exn (parse_process_char self (Some c)) (\<lambda>self'. process_line self' cs)"

text \<open>
  The rows that iterating over the reader yields from the given lines, and the
  exception that ends the iteration, if one does.  A row is complete when the machine
  is back in \<open>START_RECORD\<close> at the end of a line; a quoted field goes on over the
  lines until its closing quote.  When the lines end inside a row, the row is yielded
  with what has been read of its last field.
\<close>

fun reader_rows :: "ReaderObj \<Rightarrow> string list \<Rightarrow> string list list \<times> exn option" where
  "reader_rows self [] =
     (if field self \<noteq> [] \<or> state self = IN_QUOTED_FIELD
      then ([fields_list (parse_save_field self)], None) else ([], None))"
| "reader_rows self (line # lines) =
     (case process_line self line of
        Inl e \<Rightarrow> ([], Some e)
      | Inr self' \<Rightarrow>
          if state self' \<noteq> START_RECORD then reader_rows self' lines
          else (case reader_rows parse_reset lines of (rows, e) \<Rightarrow> (fields_list self' # rows, e)))"

definition csv_reader :: "string list \<Rightarrow> string list list \<times> exn option" where
  "csv_reader lines = reader_rows parse_reset lines"

subsection \<open>\<open>csv.DictReader\<close>\<close>

text \<open>
  The first row gives the field names.  Every later row that is not empty becomes a
  dictionary: the names are paired with the cells, a later occurrence of a name
  overriding an earlier one, and a name that the row does not reach gets \<open>None\<close>.
  (Cells beyond the names are stored under the key \<open>None\<close>, which no string equals.)
\<close>

definition DictReader_row :: "string list \<Rightarrow> string list \<Rightarrow> (string \<Rightarrow> pyval option)" where
  "DictReader_row fieldnames row =
     map_of (rev (zip fieldnames
                    (map PyStr row @ replicate (length fieldnames - length row) PyNone)))"

definition DictReader :: "string list list \<Rightarrow> (string \<Rightarrow> pyval option) list" where
  "DictReader rows =
     (case rows of
        [] \<Rightarrow> []
      | fieldnames # rest \<Rightarrow> map (DictReader_row fieldnames) (filter (\<lambda>row. row \<noteq> []) rest))"

definition getitem :: "(string \<Rightarrow> pyval option) \<Rightarrow> string \<Rightarrow> exn + pyval" where
  "getitem d k = (case d k of None \<Rightarrow> Inl (KeyError k) | Some v \<Rightarrow> Inr v)"

section \<open>Loading and saving\<close>

text \<open>The seven column names, in the order in which the program uses them.\<close>

definition column_names :: "string list" where
  "column_names =
     [''source'',
      ''latin.name_nom.latin'',
      ''english.name_nom.anglais'',
      ''french.name_nom.fran'' @ [CHR 0xE7] @ ''ais'',
      ''year_ann'' @ [CHR 0xE9] @ ''e'',
      ''month_mois'',
      ''number.otoliths_nombre.otolithes'']"

text \<open>
  The body of the loop of \<open>load_records\<close> for one row: the seven subscripts are
  evaluated from left to right, and the first missing key raises \<open>KeyError\<close>.
\<close>

definition Record_of_row :: "(string \<Rightarrow> pyval option) \<Rightarrow> exn + Record" where
  "Record_of_row row =
     bind_exn (getitem row (column_names ! 0)) (\<lambda>s.
     bind_exn (getitem row (column_names ! 1)) (\<lambda>l.
     bind_exn (getitem row (column_names ! 2)) (\<lambda>e.
     bind_exn (getitem row (column_names ! 3)) (\<lambda>f.
     bind_exn (getitem row (column_names ! 4)) (\<lambda>y.
     bind_exn (getitem row (column_names ! 5)) (\<lambda>m.
     bind_exn (getitem row (column_names ! 6)) (\<lambda>n.
     Inr (mk_Record s l e f y m n))))))))"

text \<open>
  The loop itself: each record is appended to the list that the object already holds.
  The result is the list when the loop ends, and the exception that ended it, if any.
\<close>

fun load_rows :: "(string \<Rightarrow> pyval option) list \<Rightarrow> Record list \<Rightarrow> Record list \<times> exn option" where
  "load_rows [] recs = (recs, None)"
| "load_rows (row # rows) recs =
     (case Record_of_row row of
        Inl e \<Rightarrow> (recs, Some e)
      | Inr record \<Rightarrow> load_rows rows (recs @ [record]))"

text \<open>
  \<open>load_records\<close>.  The reader is lazy: the rows before a malformed one have been
  appended when its exception arrives, and a \<open>KeyError\<close> at the first row comes before
  any later exception of the reader.
\<close>

definition load_records :: "BusinessLayer \<Rightarrow> env \<Rightarrow> BusinessLayer \<times> env" where
  "load_records self w =
     (case files w (filename self) of
        Missing \<Rightarrow> (self, print ''Error: File not found.'' w)
      | Denied msg \<Rightarrow> (self, print (''An error occurred: '' @ exn_str (OSError msg)) w)
      | Content text \<Rightarrow>
          (case csv_reader (open_r_lines text) of (rows, reader_exn) \<Rightarrow>
           case load_rows (DictReader rows) (records self) of (recs, row_exn) \<Rightarrow>
             (self\<lparr>records := recs\<rparr>,
              (case (case row_exn of Some e \<Rightarrow> Some e | None \<Rightarrow> reader_exn) of
                 None \<Rightarrow> w
               | Some e \<Rightarrow> print (''An error occurred: '' @ exn_str e) w))))"

text \<open>The constructor: an empty list, then \<open>load_records\<close>.\<close>

definition BusinessLayer_init :: "string \<Rightarrow> formatter \<Rightarrow> env \<Rightarrow> BusinessLayer \<times> env" where
  "BusinessLayer_init fname fmt w =
     load_records \<lparr>filename = fname, records = [], formatter = fmt\<rparr> w"

text \<open>
  \<open>save_records\<close>: the file is opened for writing with \<open>newline=''\<close>, so what the
  writer produces is stored as it is.
\<close>

definition row_of_Record :: "Record \<Rightarrow> pyval list" where
  "row_of_Record record =
     [source record, latin_name record, english_name record, french_name record,
      year record, month record, number_otoliths record]"

definition csv_text :: "Record list \<Rightarrow> string" where
  "csv_text recs =
     writerow (map PyStr column_names) @ concat (map (\<lambda>record. writerow (row_of_Record record)) recs)"

definition save_records :: "string \<Rightarrow> BusinessLayer \<Rightarrow> env \<Rightarrow> BusinessLayer \<times> env" where
  "save_records fname self w =
     (case files w fname of
        Denied msg \<Rightarrow>
          (self, print (''An error occurred while saving records: '' @ exn_str (OSError msg)) w)
      | _ \<Rightarrow>
          (self, print ''Records saved successfully''
                   (w\<lparr>files := (files w)(fname := Content (csv_text (records self)))\<rparr>)))"

section \<open>The presentation layer\<close>

text \<open>
  \<open>int(s)\<close> for a string: white space around the number is dropped, a sign may come
  first, and the rest is decimal digits, with single underscores allowed between
  digits.  Anything else raises \<open>ValueError\<close>, and so does a number of more than 4300
  digits (the interpreter's default limit for the conversion).  The white space that
  \<open>int\<close> drops is tab, line feed, vertical tab, form feed, carriage return and space,
  and of the characters beyond ASCII the next-line mark and the no-break space.
\<close>

definition is_space :: "char \<Rightarrow> bool" where
  "is_space c =
     (let n = (of_char c :: nat) in
      (9 \<le> n \<and> n \<le> 13) \<or> n = 32 \<or> n = 133 \<or> n = 160)"

definition max_str_digits :: nat where
  "max_str_digits = 4300"

definition strip :: "string \<Rightarrow> string" where
  "strip s = rev (dropWhile is_space (rev (dropWhile is_space s)))"

definition is_digit :: "char \<Rightarrow> bool" where
  "is_digit c = (let n = (of_char c :: nat) in 48 \<le> n \<and> n \<le> 57)"

fun int_digits :: "bool \<Rightarrow> nat \<Rightarrow> string \<Rightarrow> nat option" where
  "int_digits prev_digit acc [] = (if prev_digit then Some acc else None)"
| "int_digits prev_digit acc (c # cs) =
     (if is_digit c then int_digits True (10 * acc + (of_char c - 48)) cs
      else if c = CHR ''_'' \<and> prev_digit then int_digits False acc cs
      else None)"

definition py_int :: "string \<Rightarrow> exn + int" where
  "py_int s =
     (let t = strip s;
          parsed =
            (case t of
               [] \<Rightarrow> None
             | c # cs \<Rightarrow>
                 if c = CHR ''-'' then map_option (\<lambda>n. - int n) (int_digits False 0 cs)
                 else if c = CHR ''+'' then map_option int (int_digits False 0 cs)
                 else map_option int (int_digits False 0 t))
      in if max_str_digits < length (filter is_digit t) then Inl (ValueError s)
         else case parsed of None \<Rightarrow> Inl (ValueError s) | Some i \<Rightarrow> Inr i)"

definition display_menu :: "env \<Rightarrow> env" where
  "display_menu w =
     print ''7. Exit''
    (print ''6. Generate vertical bar chart''
    (print ''5. Delete a record''
    (print ''4. Select, display, and edit a record''
    (print ''3. Add a new record''
    (print ''2. Display all records''
    (print ''1. Reload data from dataset''
    (print ''Menu:'' w)))))))"

definition create_record :: "env \<Rightarrow> exn + (Record \<times> env)" where
  "create_record w =
     bind_exn (py_input ''Enter Source: '' w) (\<lambda>(s, w).
     bind_exn (py_input ''Enter Latin Name: '' w) (\<lambda>(l, w).
     bind_exn (py_input ''Enter English Name: '' w) (\<lambda>(e, w).
     bind_exn (py_input ''Enter French Name: '' w) (\<lambda>(f, w).
     bind_exn (py_input ''Enter Year: '' w) (\<lambda>(y, w).
     bind_exn (py_input ''Enter Month: '' w) (\<lambda>(m, w).
     bind_exn (py_input ''Enter Number of Otoliths: '' w) (\<lambda>(n, w).
     Inr (mk_Record (PyStr s) (PyStr l) (PyStr e) (PyStr f) (PyStr y) (PyStr m) (PyStr n), w))))))))"

definition select_display_edit_record :: "BusinessLayer \<Rightarrow> env \<Rightarrow> exn + (BusinessLayer \<times> env)" where
  "select_display_edit_record bl w =
     bind_exn (py_input ''Enter record index to select: '' w) (\<lambda>(s, w).
     bind_exn (py_int s) (\<lambda>i.
       let index = i - 1 in
       if 0 \<le> index \<and> index < int (length (records bl)) then
         bind_exn (display_record index bl w) (\<lambda>(bl, w).
         bind_exn (py_input ''Do you want to edit this record? (yes/no): '' w) (\<lambda>(choice, w).
           if lower choice = ''yes'' then
             bind_exn (create_record w) (\<lambda>(new_record, w). Inr (edit_record index new_record bl w))
           else Inr (bl, w)))
       else Inr (bl, print ''Invalid record index.'' w)))"

definition PresentationLayer_delete_record :: "BusinessLayer \<Rightarrow> env \<Rightarrow> exn + (BusinessLayer \<times> env)" where
  "PresentationLayer_delete_record bl w =
     bind_exn (py_input ''Enter record index to delete: '' w) (\<lambda>(s, w).
     bind_exn (py_int s) (\<lambda>i. Inr (delete_record (i - 1) bl w)))"

text \<open>
  One turn of the loop of \<open>start\<close>: the flag of the result says whether the loop goes on
  (\<open>False\<close> after the choice \<open>7\<close>).
\<close>

definition menu_turn :: "BusinessLayer \<Rightarrow> env \<Rightarrow> exn + (bool \<times> BusinessLayer \<times> env)" where
  "menu_turn bl w =
     bind_exn (py_input ''Enter your choice: '' (display_menu (print ''Full Name: Ben Nguyen'' w)))
       (\<lambda>(choice, w).
         if choice = ''1'' then Inr (True, load_records bl w)
         else if choice = ''2'' then bind_exn (display_records bl w) (\<lambda>r. Inr (True, r))
         else if choice = ''3'' then
           bind_exn (create_record w) (\<lambda>(record, w). Inr (True, add_record record bl w))
         else if choice = ''4'' then bind_exn (select_display_edit_record bl w) (\<lambda>r. Inr (True, r))
         else if choice = ''5'' then bind_exn (PresentationLayer_delete_record bl w) (\<lambda>r. Inr (True, r))
         else if choice = ''6'' then Inr (True, generate_bar_chart bl w)
         else if choice = ''7'' then Inr (False, bl, w)
         else Inr (True, bl, print ''Invalid choice. Please try again.'' w))"

text \<open>
  \<open>start\<close>: the loop runs until the choice \<open>7\<close>, or until an exception leaves it
  (no statement of the loop catches one).
\<close>

function start :: "BusinessLayer \<Rightarrow> env \<Rightarrow> exn + (BusinessLayer \<times> env)" where
  "start bl w =
     (case menu_turn bl w of
        Inl e \<Rightarrow> Inl e
      | Inr (continue, bl', w') \<Rightarrow> if continue then start bl' w' else Inr (bl', w'))"
  by pat_completeness auto

section \<open>Sample data\<close>

text \<open>Concrete records, a repository and an environment on which the theorems are run.\<close>

definition sample_record :: Record where
  "sample_record =
     mk_Record (PyStr ''Source'') (PyStr ''Latin Name'') (PyStr ''English Name'')
       (PyStr ''French Name'') (PyStr ''2024'') (PyStr ''March'') (PyStr ''24'')"

definition other_record :: Record where
  "other_record =
     mk_Record (PyStr ''DFO'') (PyStr ''Limanda ferruginea'') (PyStr ''Yellowtail Flounder'')
       (PyStr ''Limande a queue jaune'') (PyStr ''2020'') (PyStr ''June'') (PyStr ''7'')"

definition sample_layer :: BusinessLayer where
  "sample_layer =
     \<lparr>filename = ''data.csv'', records = [sample_record, other_record],
      formatter = DefaultRecordFormatter_format_record\<rparr>"

definition quiet_env :: env where
  "quiet_env =
     \<lparr>stdin = [], stdout = [], files = (\<lambda>p. Missing), plt_raises = (\<lambda>ks vs. None),
      object_getattr = (\<lambda>record name. Inl (no_attribute name))\<rparr>"


text \<open>
  A data set with one row besides the header, lines ending in \<open>\n\<close>, and an
  environment whose only file it is, under the name of the sample repository.
\<close>

definition dataset_text :: string where
  "dataset_text =
     join_fields column_names @ [LF]
     @ ''DFO,Limanda ferruginea,Yellowtail Flounder,Limande a queue jaune,2020,June,7'' @ [LF]"

definition dataset_env :: env where
  "dataset_env = quiet_env\<lparr>files := (\<lambda>p. if p = ''data.csv'' then Content dataset_text else Missing)\<rparr>"

text \<open>A record whose first field has a carriage return between two letters.\<close>

definition cr_record :: Record where
  "cr_record =
     mk_Record (PyStr ([CHR ''a'', CR, CHR ''b''])) (PyStr ''L'') (PyStr ''E'') (PyStr ''F'')
       (PyStr ''2020'') (PyStr ''June'') (PyStr ''7'')"

section \<open>Notions for the proofs about the reader\<close>

text \<open>
  The characters of a piece of a line, without the end-of-line mark: \<open>process_line\<close> is
  \<open>feed\<close> followed by the mark.
\<close>

fun feed :: "ReaderObj \<Rightarrow> string \<Rightarrow> exn + ReaderObj" where
  "feed self [] = Inr self"
| "feed self (c # cs) = bind_exn (parse_process_char self (Some c)) (\<lambda>self'. feed self' cs)"

text \<open>
  \<open>leads \<sigma> txt \<sigma>'\<close>: wherever the reader is in state \<open>\<sigma>\<close> inside a line and the text
  that follows starts with \<open>txt\<close>, reading on is the same as reading what follows
  \<open>txt\<close> from state \<open>\<sigma>'\<close>.  The text may go over several lines (a quoted field with
  line feeds), so the row and the line at which the reader stands may change.
\<close>

definition leads :: "ReaderObj \<Rightarrow> string \<Rightarrow> ReaderObj \<Rightarrow> bool" where
  "leads \<sigma> txt \<sigma>' =
     (\<forall>self cur. feed self cur = Inr \<sigma> \<longrightarrow>
        (\<exists>self' cur'. feed self' cur' = Inr \<sigma>'
           \<and> (\<forall>rest. reader_rows self (readlines cur (txt @ rest))
                        = reader_rows self' (readlines cur' rest))))"

text \<open>The text that the writer produces for a row of strings, without the line terminator.\<close>

definition row_text :: "string list \<Rightarrow> string" where
  "row_text row = join_fields (map (\<lambda>f. join_append (PyStr f)) row)"

text \<open>
  A value that the file format can carry: a string without carriage return that is not
  longer than the reader's field limit.  \<open>the_str\<close> is what the writer writes for a
  value, and \<open>stored_row\<close> the cells of a record.
\<close>

definition storable :: "pyval \<Rightarrow> bool" where
  "storable v =
     (case v of
        PyNone \<Rightarrow> False
      | PyStr s \<Rightarrow> CR \<notin> set s \<and> length s \<le> field_limit
      | PyObject s \<Rightarrow> False)"

definition the_str :: "pyval \<Rightarrow> string" where
  "the_str v = (case v of PyNone \<Rightarrow> [] | PyStr s \<Rightarrow> s | PyObject s \<Rightarrow> s)"

definition stored_row :: "Record \<Rightarrow> string list" where
  "stored_row r = map the_str (row_of_Record r)"

section \<open>Termination of the menu loop\<close>

text \<open>
  Nothing but \<open>input\<close> touches the standard input, and every turn of the menu loop
  reads at least the choice, so the loop ends when the input does.
\<close>

lemma stdin_print: "stdin (print s w) = stdin w"
  by (simp add: print_def)

lemma stdin_prompted: "stdin (prompted p w) = stdin w"
  by (simp add: prompted_def)

lemma stdin_display_menu: "stdin (display_menu w) = stdin w"
  by (simp add: display_menu_def stdin_print)

lemma py_input_stdin:
  "py_input p w = Inr (l, w') \<Longrightarrow> length (stdin w') < length (stdin w)"
  by (auto simp: py_input_def stdin_prompted split: list.splits)

lemma stdin_load_records: "load_records bl w = (bl', w') \<Longrightarrow> stdin w' = stdin w"
  by (auto simp: load_records_def stdin_print split: file_status.splits prod.splits option.splits)

lemma stdin_display_record:
  "display_record i bl w = Inr (bl', w') \<Longrightarrow> stdin w' = stdin w"
  by (auto simp: display_record_def stdin_print split: if_splits sum.splits)

lemma stdin_display_records_loop:
  "display_records_loop irs bl w = Inr (bl', w') \<Longrightarrow> stdin w' = stdin w"
proof (induction irs bl w rule: display_records_loop.induct)
  case (1 self w)
  then show ?case by simp
next
  case (2 index r rest self w)
  from "2.prems" obtain self1 w1 where
    d: "display_record (int index) self (print (''Record '' @ str_nat (index + 1)) w) = Inr (self1, w1)"
    and r: "display_records_loop rest self1
              (if (index + 1) mod 10 = 0 then print ''Program by Ben Nguyen'' w1 else w1) = Inr (bl', w')"
    by (auto split: sum.splits)
  have "stdin w1 = stdin w"
    using stdin_display_record [OF d] by (simp add: stdin_print)
  moreover have "stdin w' = stdin (if (index + 1) mod 10 = 0 then print ''Program by Ben Nguyen'' w1 else w1)"
    using "2.IH" [OF d refl r] .
  ultimately show ?case by (simp add: stdin_print)
qed

lemma stdin_display_records:
  "display_records bl w = Inr (bl', w') \<Longrightarrow> stdin w' = stdin w"
  unfolding display_records_def by (rule stdin_display_records_loop)

lemma stdin_create_record:
  "create_record w = Inr (r, w') \<Longrightarrow> length (stdin w') < length (stdin w)"
  unfolding create_record_def bind_exn_def
  by (auto split: sum.splits dest!: py_input_stdin)

lemma stdin_edit_record: "edit_record i r bl w = (bl', w') \<Longrightarrow> stdin w' = stdin w"
  by (auto simp: edit_record_def stdin_print split: if_splits)

lemma stdin_delete_record: "delete_record i bl w = (bl', w') \<Longrightarrow> stdin w' = stdin w"
  by (auto simp: delete_record_def stdin_print split: if_splits)

lemma stdin_add_record: "add_record r bl w = (bl', w') \<Longrightarrow> stdin w' = stdin w"
  by (auto simp: add_record_def stdin_print)

lemma stdin_generate_bar_chart:
  "generate_bar_chart bl w = (bl', w') \<Longrightarrow> length (stdin w') \<le> length (stdin w)"
  unfolding generate_bar_chart_def Let_def
  by (auto simp: stdin_print stdin_prompted split: sum.splits option.splits prod.splits dest!: py_input_stdin)

lemma stdin_select_display_edit_record:
  "select_display_edit_record bl w = Inr (bl', w') \<Longrightarrow> length (stdin w') < length (stdin w)"
  unfolding select_display_edit_record_def bind_exn_def Let_def
  by (auto simp: stdin_print split: sum.splits if_splits
      dest!: py_input_stdin stdin_display_record stdin_create_record stdin_edit_record)

lemma stdin_PresentationLayer_delete_record:
  "PresentationLayer_delete_record bl w = Inr (bl', w') \<Longrightarrow> length (stdin w') < length (stdin w)"
  unfolding PresentationLayer_delete_record_def bind_exn_def
  by (auto simp: stdin_print split: sum.splits
      dest!: py_input_stdin stdin_delete_record)

lemma stdin_menu_turn:
  "menu_turn bl w = Inr (continue, bl', w') \<Longrightarrow> length (stdin w') < length (stdin w)"
  unfolding menu_turn_def bind_exn_def
  by (auto simp: stdin_print stdin_display_menu split: sum.splits if_splits
      dest!: py_input_stdin stdin_load_records stdin_display_records stdin_create_record
        stdin_add_record stdin_select_display_edit_record stdin_PresentationLayer_delete_record
        stdin_generate_bar_chart)

termination start
  by (relation "measure (\<lambda>(bl, w). length (stdin w))") (auto dest: stdin_menu_turn)

declare start.simps [simp del]

section \<open>The default formatter\<close>

text \<open>
  Claim C8.  For the record with the fields \<open>Source\<close>, \<open>Latin Name\<close>, \<open>English Name\<close>,
  \<open>French Name\<close>, \<open>2024\<close>, \<open>March\<close>, \<open>24\<close> the default formatter returns exactly the
  line of the repository's unit test; and for every record whose seven fields are
  strings it returns the fixed layout with the fields put in as they are.
\<close>

theorem DefaultRecordFormatter_layout:
  "DefaultRecordFormatter_format_record
     (mk_Record (PyStr ''Source'') (PyStr ''Latin Name'') (PyStr ''English Name'')
        (PyStr ''French Name'') (PyStr ''2024'') (PyStr ''March'') (PyStr ''24''))
   = Inr ''Source: Source, Latin Name: Latin Name, English Name: English Name, French Name: French Name, Year: 2024, Month: March, Number of Otoliths: 24''
   \<and> DefaultRecordFormatter_format_record
       (mk_Record (PyStr s) (PyStr l) (PyStr e) (PyStr f) (PyStr y) (PyStr m) (PyStr n))
     = Inr (''Source: '' @ s @ '', Latin Name: '' @ l @ '', English Name: '' @ e
            @ '', French Name: '' @ f @ '', Year: '' @ y @ '', Month: '' @ m
            @ '', Number of Otoliths: '' @ n)"
  by (simp add: DefaultRecordFormatter_format_record_def mk_Record_def)

section \<open>Indexed operations\<close>

text \<open>
  Claim C4.  For an index that is negative or not below the length of the record list,
  each of \<open>display_record\<close>, \<open>edit_record\<close> and \<open>delete_record\<close> prints
  \<open>Invalid record index.\<close> and returns the repository as it was: the same records in the
  same order (and the same file name and formatter).
\<close>

theorem invalid_index_reported_unchanged:
  assumes "index < 0 \<or> int (length (records self)) \<le> index"
  shows "display_record index self w = Inr (self, print ''Invalid record index.'' w)
       \<and> edit_record index new_record self w = (self, print ''Invalid record index.'' w)
       \<and> delete_record index self w = (self, print ''Invalid record index.'' w)"
  using assms by (auto simp: display_record_def edit_record_def delete_record_def)

theorem invalid_index_reported_unchanged_witness:
  "((-1 :: int) < 0 \<or> int (length (records sample_layer)) \<le> -1)
   \<and> display_record (-1) sample_layer quiet_env = Inr (sample_layer, print ''Invalid record index.'' quiet_env)
   \<and> edit_record (-1) other_record sample_layer quiet_env = (sample_layer, print ''Invalid record index.'' quiet_env)
   \<and> delete_record (-1) sample_layer quiet_env = (sample_layer, print ''Invalid record index.'' quiet_env)
   \<and> ((2 :: int) < 0 \<or> int (length (records sample_layer)) \<le> 2)
   \<and> display_record 2 sample_layer quiet_env = Inr (sample_layer, print ''Invalid record index.'' quiet_env)
   \<and> edit_record 2 other_record sample_layer quiet_env = (sample_layer, print ''Invalid record index.'' quiet_env)
   \<and> delete_record 2 sample_layer quiet_env = (sample_layer, print ''Invalid record index.'' quiet_env)"
  using invalid_index_reported_unchanged [of "-1" sample_layer quiet_env other_record]
    invalid_index_reported_unchanged [of 2 sample_layer quiet_env other_record]
  by (simp add: sample_layer_def)

lemma del_item_take_drop: "i < length xs \<Longrightarrow> del_item xs i = take i xs @ drop (Suc i) xs"
  by (induction xs i rule: del_item.induct) simp_all

text \<open>
  Claim C6.  For a valid index \<open>delete_record\<close> removes exactly the element at that
  index: what is left is the elements before it followed by the elements after it, the
  length is one less, the elements before keep their positions and the elements after
  move down by one.  The success message is printed.
\<close>

theorem delete_record_excises:
  assumes "0 \<le> index" and "index < int (length (records self))"
  shows "records (fst (delete_record index self w))
           = take (nat index) (records self) @ drop (nat index + 1) (records self)
       \<and> length (records (fst (delete_record index self w))) = length (records self) - 1
       \<and> (\<forall>j < nat index. records (fst (delete_record index self w)) ! j = records self ! j)
       \<and> (\<forall>j. nat index \<le> j \<and> j < length (records self) - 1 \<longrightarrow>
             records (fst (delete_record index self w)) ! j = records self ! (j + 1))
       \<and> stdout (snd (delete_record index self w)) = stdout w @ [Print ''Record deleted successfully.'']"
proof -
  let ?xs = "records self"
  let ?i = "nat index"
  from assms have i: "?i < length ?xs" by simp
  have r: "records (fst (delete_record index self w)) = take ?i ?xs @ drop (Suc ?i) ?xs"
    using assms by (simp add: delete_record_def del_item_take_drop)
  have len: "length (take ?i ?xs @ drop (Suc ?i) ?xs) = length ?xs - 1"
    using i by simp
  have before: "\<forall>j < ?i. (take ?i ?xs @ drop (Suc ?i) ?xs) ! j = ?xs ! j"
    using i by (simp add: nth_append)
  have after: "\<forall>j. ?i \<le> j \<and> j < length ?xs - 1 \<longrightarrow> (take ?i ?xs @ drop (Suc ?i) ?xs) ! j = ?xs ! (j + 1)"
    using i by (auto simp: nth_append min_def)
  have out: "stdout (snd (delete_record index self w)) = stdout w @ [Print ''Record deleted successfully.'']"
    using assms by (simp add: delete_record_def print_def)
  from r len before after out show ?thesis by simp
qed

theorem delete_record_excises_witness:
  "(0 :: int) \<le> 0 \<and> 0 < int (length (records sample_layer))
   \<and> records (fst (delete_record 0 sample_layer quiet_env)) = [other_record]
   \<and> length (records (fst (delete_record 0 sample_layer quiet_env))) = 1"
  using delete_record_excises [of 0 sample_layer quiet_env]
  by (simp add: sample_layer_def)

text \<open>
  Claim C7.  For a valid index, \<open>display_record\<close> prints exactly the string that the
  repository's formatter returns for the record at that index, and nothing else, and
  returns the repository unchanged.
\<close>

theorem display_record_emits_formatted:
  assumes "0 \<le> index" and "index < int (length (records self))"
    and "formatter self (records self ! nat index) = Inr s"
  shows "display_record index self w = Inr (self, w\<lparr>stdout := stdout w @ [Print s]\<rparr>)"
  using assms by (simp add: display_record_def print_def)

theorem display_record_emits_formatted_witness:
  "(0 :: int) \<le> 0 \<and> 0 < int (length (records sample_layer))
   \<and> formatter sample_layer (records sample_layer ! nat 0)
       = Inr ''Source: Source, Latin Name: Latin Name, English Name: English Name, French Name: French Name, Year: 2024, Month: March, Number of Otoliths: 24''
   \<and> display_record 0 sample_layer quiet_env
       = Inr (sample_layer, quiet_env\<lparr>stdout := stdout quiet_env @ [Print ''Source: Source, Latin Name: Latin Name, English Name: English Name, French Name: French Name, Year: 2024, Month: March, Number of Otoliths: 24'']\<rparr>)"
proof -
  have f: "formatter sample_layer (records sample_layer ! nat 0)
       = Inr ''Source: Source, Latin Name: Latin Name, English Name: English Name, French Name: French Name, Year: 2024, Month: March, Number of Otoliths: 24''"
    by (simp add: sample_layer_def sample_record_def DefaultRecordFormatter_format_record_def mk_Record_def)
  have l: "0 < int (length (records sample_layer))" by (simp add: sample_layer_def)
  show ?thesis
    using display_record_emits_formatted [OF _ l f, of quiet_env] f l by simp
qed

text \<open>
  Claim C10.  For a valid index, \<open>edit_record\<close> keeps the length of the record list
  and every record at another index; the record at the index is the new one.
\<close>

theorem edit_record_frame:
  assumes "0 \<le> index" and "index < int (length (records self))"
  shows "length (records (fst (edit_record index new_record self w))) = length (records self)
       \<and> (\<forall>j < length (records self). j \<noteq> nat index \<longrightarrow>
             records (fst (edit_record index new_record self w)) ! j = records self ! j)
       \<and> records (fst (edit_record index new_record self w)) ! nat index = new_record"
  using assms by (simp add: edit_record_def)

theorem edit_record_frame_witness:
  "(0 :: int) \<le> 1 \<and> 1 < int (length (records sample_layer))
   \<and> records (fst (edit_record 1 sample_record sample_layer quiet_env)) = [sample_record, sample_record]"
proof -
  have l: "1 < int (length (records sample_layer))" by (simp add: sample_layer_def)
  let ?new = "records (fst (edit_record 1 sample_record sample_layer quiet_env))"
  from edit_record_frame [OF _ l, of sample_record quiet_env]
  have "length ?new = 2" and "?new ! 0 = sample_record" and "?new ! 1 = sample_record"
    by (simp_all add: sample_layer_def)
  then have "?new = [sample_record, sample_record]"
    by (cases ?new; simp; rename_tac ys; case_tac ys; simp)
  with l show ?thesis by simp
qed

section \<open>Counting by a field\<close>

















section \<open>Loading\<close>

text \<open>The definitions that evaluating the reader and the loader on a concrete text unfolds.\<close>

lemmas reader_defs =
  parse_process_char_def process_START_FIELD_def parse_add_char_def parse_save_field_def
  end_of_record_def is_newline_def bind_exn_def field_limit_def parse_reset_def
  CR_def LF_def delimiter_def quotechar_def

lemma dataset_rows:
  "csv_reader (open_r_lines dataset_text) =
     ([column_names,
       [''DFO'', ''Limanda ferruginea'', ''Yellowtail Flounder'', ''Limande a queue jaune'',
        ''2020'', ''June'', ''7'']], None)"
  by (simp add: csv_reader_def open_r_lines_def dataset_text_def column_names_def reader_defs)

lemmas load_defs =
  DictReader_def DictReader_row_def Record_of_row_def getitem_def column_names_def
  mk_Record_def bind_exn_def

text \<open>
  Whatever the file holds, \<open>load_records\<close> keeps the records that the repository
  already has and puts after them what a fresh repository would load.
\<close>

lemma load_rows_append:
  "load_rows rows recs = (recs @ fst (load_rows rows []), snd (load_rows rows []))"
proof (induction rows arbitrary: recs)
  case Nil
  then show ?case by simp
next
  case (Cons row rows)
  show ?case
  proof (cases "Record_of_row row")
    case (Inl e)
    then show ?thesis by simp
  next
    case (Inr r)
    then show ?thesis
      using Cons.IH [of "recs @ [r]"] Cons.IH [of "[r]"] by simp
  qed
qed

lemma load_records_keeps_prefix:
  "records (fst (load_records self w))
     = records self @ records (fst (BusinessLayer_init (filename self) fmt w))"
  unfolding load_records_def BusinessLayer_init_def
  by (cases "files w (filename self)")
     (auto split: prod.splits simp: load_rows_append [of _ "records self"])

text \<open>
  Claim C1 (the code departs from it).  The sample repository holds two records and the
  data set parses, without error, to one row.  After \<open>load_records\<close> the repository
  holds three records: the two it had, then the row.  Only the constructor, which
  starts from the empty list, ends with exactly the parsed row.
\<close>

theorem load_records_at_reload:
  "records (fst (load_records sample_layer dataset_env)) = [sample_record, other_record, other_record]
   \<and> stdout (snd (load_records sample_layer dataset_env)) = []
   \<and> records (fst (BusinessLayer_init ''data.csv'' DefaultRecordFormatter_format_record dataset_env))
       = [other_record]"
  by (simp add: load_records_def BusinessLayer_init_def sample_layer_def dataset_env_def quiet_env_def
      dataset_rows load_defs sample_record_def other_record_def)

text \<open>
  When the file does not exist, \<open>load_records\<close> reports it and returns normally, whatever
  the repository holds.
\<close>

lemma load_records_missing_reports:
  assumes "files w (filename self) = Missing"
  shows "stdout (snd (load_records self w)) = stdout w @ [Print ''Error: File not found.'']"
  using assms by (simp add: load_records_def print_def)

text \<open>
  Claim C3 (the code departs from it).  The sample repository holds two records and
  its file does not exist.  \<open>load_records\<close> prints \<open>Error: File not found.\<close> and returns
  normally, but the record list is not empty afterwards: the two records are still
  there, since \<open>load_records\<close> does not reset the list (the reset that claim C1 misses
  too).  The list is empty only after the load that the constructor runs, which starts
  from the empty list.
\<close>

theorem load_records_missing_at_reload:
  "files quiet_env (filename sample_layer) = Missing
   \<and> records (fst (load_records sample_layer quiet_env)) = [sample_record, other_record]
   \<and> stdout (snd (load_records sample_layer quiet_env)) = [Print ''Error: File not found.'']
   \<and> records (fst (BusinessLayer_init ''data.csv'' DefaultRecordFormatter_format_record quiet_env)) = []
   \<and> stdout (snd (BusinessLayer_init ''data.csv'' DefaultRecordFormatter_format_record quiet_env))
       = [Print ''Error: File not found.'']"
  by (simp add: load_records_def BusinessLayer_init_def sample_layer_def quiet_env_def print_def)

section \<open>Saving, then loading\<close>

text \<open>
  First the general fact: a list of records whose fields are all storable comes back
  as it was.  The proof follows the reader through the written text: field by field,
  row by row.
\<close>

lemma bind_exn_Inr: "bind_exn (Inr x) f = f x"
  by (simp add: bind_exn_def)

lemma bind_exn_Inl: "bind_exn (Inl e) f = Inl e"
  by (simp add: bind_exn_def)

lemma bind_exn_return: "bind_exn m Inr = m"
  by (simp add: bind_exn_def split: sum.splits)

lemma feed_append: "feed self (a @ b) = bind_exn (feed self a) (\<lambda>s. feed s b)"
  by (induction a arbitrary: self) (auto simp: bind_exn_def split: sum.splits)

lemma process_line_feed:
  "process_line self l = bind_exn (feed self l) (\<lambda>s. parse_process_char s None)"
  by (induction l arbitrary: self) (auto simp: bind_exn_def split: sum.splits)

lemma special_chars:
  "quotechar \<noteq> LF" "quotechar \<noteq> CR" "quotechar \<noteq> delimiter"
  "delimiter \<noteq> LF" "delimiter \<noteq> CR" "LF \<noteq> CR"
  "LF \<noteq> quotechar" "CR \<noteq> quotechar" "delimiter \<noteq> quotechar"
  "LF \<noteq> delimiter" "CR \<noteq> delimiter" "CR \<noteq> LF"
  by (simp_all add: quotechar_def LF_def CR_def delimiter_def)

lemma leads_refl: "leads \<sigma> [] \<sigma>"
  unfolding leads_def by auto

lemma leads_trans:
  assumes "leads \<sigma> a \<sigma>'" and "leads \<sigma>' b \<sigma>''"
  shows "leads \<sigma> (a @ b) \<sigma>''"
  unfolding leads_def
proof (intro allI impI)
  fix self cur
  assume "feed self cur = Inr \<sigma>"
  with assms(1) obtain self1 cur1 where
    f1: "feed self1 cur1 = Inr \<sigma>'"
    and r1: "\<forall>rest. reader_rows self (readlines cur (a @ rest)) = reader_rows self1 (readlines cur1 rest)"
    unfolding leads_def by blast
  from assms(2) f1 obtain self2 cur2 where
    f2: "feed self2 cur2 = Inr \<sigma>''"
    and r2: "\<forall>rest. reader_rows self1 (readlines cur1 (b @ rest)) = reader_rows self2 (readlines cur2 rest)"
    unfolding leads_def by blast
  have "\<forall>rest. reader_rows self (readlines cur ((a @ b) @ rest)) = reader_rows self2 (readlines cur2 rest)"
    using r1 r2 by simp
  with f2 show "\<exists>self' cur'. feed self' cur' = Inr \<sigma>''
      \<and> (\<forall>rest. reader_rows self (readlines cur ((a @ b) @ rest)) = reader_rows self' (readlines cur' rest))"
    by blast
qed

lemma leads_char:
  assumes "c \<noteq> LF" and "parse_process_char \<sigma> (Some c) = Inr \<sigma>'"
  shows "leads \<sigma> [c] \<sigma>'"
  unfolding leads_def
proof (intro allI impI)
  fix self cur
  assume f: "feed self cur = Inr \<sigma>"
  have "feed self (cur @ [c]) = Inr \<sigma>'"
    using f assms(2) by (simp add: feed_append bind_exn_Inr bind_exn_return)
  moreover have "\<forall>rest. reader_rows self (readlines cur ([c] @ rest)) = reader_rows self (readlines (cur @ [c]) rest)"
    using assms(1) by simp
  ultimately show "\<exists>self' cur'. feed self' cur' = Inr \<sigma>'
      \<and> (\<forall>rest. reader_rows self (readlines cur ([c] @ rest)) = reader_rows self' (readlines cur' rest))"
    by blast
qed

lemma reader_rows_LF:
  assumes "feed self cur = Inr \<sigma>"
    and "parse_process_char \<sigma> (Some LF) = Inr \<tau>"
    and "parse_process_char \<tau> None = Inr \<upsilon>"
  shows "reader_rows self (readlines cur (LF # X)) =
     (if state \<upsilon> \<noteq> START_RECORD then reader_rows \<upsilon> (readlines [] X)
      else (case reader_rows parse_reset (readlines [] X) of (rows, e) \<Rightarrow> (fields_list \<upsilon> # rows, e)))"
  using assms by (simp add: process_line_feed feed_append bind_exn_Inr)

lemma leads_LF:
  assumes "parse_process_char \<sigma> (Some LF) = Inr \<tau>"
    and "parse_process_char \<tau> None = Inr \<upsilon>"
    and "state \<upsilon> \<noteq> START_RECORD"
  shows "leads \<sigma> [LF] \<upsilon>"
  unfolding leads_def
proof (intro allI impI)
  fix self cur
  assume f: "feed self cur = Inr \<sigma>"
  have "\<forall>rest. reader_rows self (readlines cur ([LF] @ rest)) = reader_rows \<upsilon> (readlines [] rest)"
    using reader_rows_LF [OF f assms(1,2)] assms(3) by simp
  moreover have "feed \<upsilon> [] = Inr \<upsilon>" by simp
  ultimately show "\<exists>self' cur'. feed self' cur' = Inr \<upsilon>
      \<and> (\<forall>rest. reader_rows self (readlines cur ([LF] @ rest)) = reader_rows self' (readlines cur' rest))"
    by blast
qed

lemma leads_Cons:
  assumes "leads \<sigma> [c] \<sigma>'" and "leads \<sigma>' cs \<sigma>''"
  shows "leads \<sigma> (c # cs) \<sigma>''"
  using leads_trans [OF assms] by simp

lemmas step_defs =
  parse_process_char_def process_START_FIELD_def parse_add_char_def parse_save_field_def
  end_of_record_def is_newline_def bind_exn_def

lemma quoted_data:
  assumes "length a + length d \<le> field_limit"
  shows "leads \<lparr>state = IN_QUOTED_FIELD, field = a, fields_list = done\<rparr>
           (join_append_data d)
           \<lparr>state = IN_QUOTED_FIELD, field = a @ d, fields_list = done\<rparr>"
  using assms
proof (induction d arbitrary: a)
  case Nil
  then show ?case by (simp add: leads_refl)
next
  case (Cons c d)
  let ?\<sigma> = "\<lparr>state = IN_QUOTED_FIELD, field = a, fields_list = done\<rparr>"
  let ?\<sigma>1 = "\<lparr>state = IN_QUOTED_FIELD, field = a @ [c], fields_list = done\<rparr>"
  have lim: "\<not> field_limit \<le> length a" using Cons.prems by simp
  have rest: "leads ?\<sigma>1 (join_append_data d) \<lparr>state = IN_QUOTED_FIELD, field = a @ c # d, fields_list = done\<rparr>"
    using Cons.IH [of "a @ [c]"] Cons.prems by simp
  consider (quote) "c = quotechar" | (lf) "c = LF" | (plain) "c \<noteq> quotechar" "c \<noteq> LF" by blast
  then show ?case
  proof cases
    case quote
    have "leads ?\<sigma> [quotechar] \<lparr>state = QUOTE_IN_QUOTED_FIELD, field = a, fields_list = done\<rparr>"
      by (rule leads_char) (simp_all add: special_chars step_defs)
    moreover have "leads \<lparr>state = QUOTE_IN_QUOTED_FIELD, field = a, fields_list = done\<rparr> [quotechar] ?\<sigma>1"
      using lim quote by (intro leads_char) (simp_all add: special_chars step_defs)
    ultimately have "leads ?\<sigma> ([quotechar] @ [quotechar]) ?\<sigma>1" by (rule leads_trans)
    from leads_trans [OF this rest] quote show ?thesis by simp
  next
    case lf
    have "leads ?\<sigma> [LF] ?\<sigma>1"
      using lim lf by (intro leads_LF [where \<tau> = ?\<sigma>1]) (simp_all add: special_chars step_defs)
    from leads_trans [OF this rest] lf show ?thesis by (simp add: special_chars)
  next
    case plain
    have "leads ?\<sigma> [c] ?\<sigma>1"
      using lim plain by (intro leads_char) (simp_all add: step_defs)
    from leads_trans [OF this rest] plain show ?thesis by simp
  qed
qed

lemma unquoted_data:
  assumes "length a + length d \<le> field_limit" and "\<not> list_ex must_quote d"
  shows "leads \<lparr>state = IN_FIELD, field = a, fields_list = done\<rparr> d
           \<lparr>state = IN_FIELD, field = a @ d, fields_list = done\<rparr>"
  using assms
proof (induction d arbitrary: a)
  case Nil
  then show ?case by (simp add: leads_refl)
next
  case (Cons c d)
  have c: "c \<noteq> delimiter" "c \<noteq> quotechar" "c \<noteq> CR" "c \<noteq> LF"
    using Cons.prems(2) by (auto simp: must_quote_def lineterminator_def)
  have lim: "\<not> field_limit \<le> length a" using Cons.prems by simp
  have "leads \<lparr>state = IN_FIELD, field = a, fields_list = done\<rparr> [c]
          \<lparr>state = IN_FIELD, field = a @ [c], fields_list = done\<rparr>"
    using lim c by (intro leads_char) (simp_all add: step_defs)
  moreover have "leads \<lparr>state = IN_FIELD, field = a @ [c], fields_list = done\<rparr> d
          \<lparr>state = IN_FIELD, field = a @ c # d, fields_list = done\<rparr>"
    using Cons.IH [of "a @ [c]"] Cons.prems by simp
  ultimately show ?case by (rule leads_Cons)
qed

text \<open>A field and the delimiter after it.\<close>

lemma field_then_delimiter:
  assumes "s = START_RECORD \<or> s = START_FIELD" and "length f \<le> field_limit"
  shows "leads \<lparr>state = s, field = [], fields_list = done\<rparr>
           (join_append (PyStr f) @ [delimiter])
           \<lparr>state = START_FIELD, field = [], fields_list = done @ [f]\<rparr>"
proof -
  let ?\<sigma> = "\<lparr>state = s, field = [], fields_list = done\<rparr>"
  let ?goal = "\<lparr>state = START_FIELD, field = [], fields_list = done @ [f]\<rparr>"
  have pos: "0 < field_limit" by (simp add: field_limit_def)
  show ?thesis
  proof (cases "list_ex must_quote f")
    case True
    have 1: "leads ?\<sigma> [quotechar] \<lparr>state = IN_QUOTED_FIELD, field = [], fields_list = done\<rparr>"
      using assms(1) by (intro leads_char) (auto simp: special_chars step_defs)
    have 2: "leads \<lparr>state = IN_QUOTED_FIELD, field = [], fields_list = done\<rparr> (join_append_data f)
               \<lparr>state = IN_QUOTED_FIELD, field = f, fields_list = done\<rparr>"
      using quoted_data [of "[]" f "done"] assms(2) by simp
    have 3: "leads \<lparr>state = IN_QUOTED_FIELD, field = f, fields_list = done\<rparr> [quotechar]
               \<lparr>state = QUOTE_IN_QUOTED_FIELD, field = f, fields_list = done\<rparr>"
      by (intro leads_char) (simp_all add: special_chars step_defs)
    have 4: "leads \<lparr>state = QUOTE_IN_QUOTED_FIELD, field = f, fields_list = done\<rparr> [delimiter] ?goal"
      by (intro leads_char) (simp_all add: special_chars step_defs)
    from leads_trans [OF leads_trans [OF leads_trans [OF 1 2] 3] 4] True
    show ?thesis by (simp add: join_append_def join_append_str_def)
  next
    case False
    show ?thesis
    proof (cases f)
      case Nil
      have "leads ?\<sigma> [delimiter] ?goal"
        using assms(1) Nil by (intro leads_char) (auto simp: special_chars step_defs)
      with False Nil show ?thesis by (simp add: join_append_def join_append_str_def)
    next
      case (Cons c d)
      have c: "c \<noteq> delimiter" "c \<noteq> quotechar" "c \<noteq> CR" "c \<noteq> LF"
        using False Cons by (auto simp: must_quote_def lineterminator_def)
      have d: "\<not> list_ex must_quote d" using False Cons by simp
      have 1: "leads ?\<sigma> [c] \<lparr>state = IN_FIELD, field = [c], fields_list = done\<rparr>"
        using assms(1) c pos by (intro leads_char) (auto simp: step_defs)
      have 2: "leads \<lparr>state = IN_FIELD, field = [c], fields_list = done\<rparr> d
                 \<lparr>state = IN_FIELD, field = f, fields_list = done\<rparr>"
        using unquoted_data [of "[c]" d "done"] assms(2) d Cons by simp
      have 3: "leads \<lparr>state = IN_FIELD, field = f, fields_list = done\<rparr> [delimiter] ?goal"
        by (intro leads_char) (simp_all add: special_chars step_defs)
      from leads_trans [OF leads_trans [OF 1 2] 3] False Cons
      show ?thesis by (simp add: join_append_def join_append_str_def)
    qed
  qed
qed

text \<open>The last field of a row and the end of its line.\<close>

lemma field_body:
  assumes "length f \<le> field_limit"
  shows "\<exists>\<sigma>'. leads \<lparr>state = START_FIELD, field = [], fields_list = done\<rparr> (join_append (PyStr f)) \<sigma>'
           \<and> parse_process_char \<sigma>' (Some LF)
               = Inr \<lparr>state = EAT_CRNL, field = [], fields_list = done @ [f]\<rparr>"
proof -
  let ?\<sigma> = "\<lparr>state = START_FIELD, field = [], fields_list = done\<rparr>"
  have pos: "0 < field_limit" by (simp add: field_limit_def)
  show ?thesis
  proof (cases "list_ex must_quote f")
    case True
    let ?q = "\<lparr>state = QUOTE_IN_QUOTED_FIELD, field = f, fields_list = done\<rparr>"
    have 1: "leads ?\<sigma> [quotechar] \<lparr>state = IN_QUOTED_FIELD, field = [], fields_list = done\<rparr>"
      by (intro leads_char) (auto simp: special_chars step_defs)
    have 2: "leads \<lparr>state = IN_QUOTED_FIELD, field = [], fields_list = done\<rparr> (join_append_data f)
               \<lparr>state = IN_QUOTED_FIELD, field = f, fields_list = done\<rparr>"
      using quoted_data [of "[]" f "done"] assms by simp
    have 3: "leads \<lparr>state = IN_QUOTED_FIELD, field = f, fields_list = done\<rparr> [quotechar] ?q"
      by (intro leads_char) (simp_all add: special_chars step_defs)
    have "leads ?\<sigma> (join_append (PyStr f)) ?q"
      using leads_trans [OF leads_trans [OF 1 2] 3] True by (simp add: join_append_def join_append_str_def)
    moreover have "parse_process_char ?q (Some LF)
        = Inr \<lparr>state = EAT_CRNL, field = [], fields_list = done @ [f]\<rparr>"
      by (simp add: special_chars step_defs)
    ultimately show ?thesis by blast
  next
    case False
    show ?thesis
    proof (cases f)
      case Nil
      have "leads ?\<sigma> (join_append (PyStr f)) ?\<sigma>"
        using Nil by (simp add: join_append_def join_append_str_def leads_refl)
      moreover have "parse_process_char ?\<sigma> (Some LF)
          = Inr \<lparr>state = EAT_CRNL, field = [], fields_list = done @ [f]\<rparr>"
        using Nil by (simp add: special_chars step_defs)
      ultimately show ?thesis by blast
    next
      case (Cons c d)
      let ?u = "\<lparr>state = IN_FIELD, field = f, fields_list = done\<rparr>"
      have c: "c \<noteq> delimiter" "c \<noteq> quotechar" "c \<noteq> CR" "c \<noteq> LF"
        using False Cons by (auto simp: must_quote_def lineterminator_def)
      have d: "\<not> list_ex must_quote d" using False Cons by simp
      have 1: "leads ?\<sigma> [c] \<lparr>state = IN_FIELD, field = [c], fields_list = done\<rparr>"
        using c pos by (intro leads_char) (auto simp: step_defs)
      have 2: "leads \<lparr>state = IN_FIELD, field = [c], fields_list = done\<rparr> d ?u"
        using unquoted_data [of "[c]" d "done"] assms d Cons by simp
      have "leads ?\<sigma> (join_append (PyStr f)) ?u"
        using leads_trans [OF 1 2] False Cons by (simp add: join_append_def join_append_str_def)
      moreover have "parse_process_char ?u (Some LF)
          = Inr \<lparr>state = EAT_CRNL, field = [], fields_list = done @ [f]\<rparr>"
        by (simp add: special_chars step_defs)
      ultimately show ?thesis by blast
    qed
  qed
qed

lemma field_then_newline:
  assumes "length f \<le> field_limit"
    and "feed self cur = Inr \<lparr>state = START_FIELD, field = [], fields_list = done\<rparr>"
  shows "reader_rows self (readlines cur (join_append (PyStr f) @ LF # rest))
           = (case reader_rows parse_reset (readlines [] rest) of
                (rows, e) \<Rightarrow> ((done @ [f]) # rows, e))"
proof -
  from field_body [OF assms(1), of "done"] obtain \<sigma>' where
    l: "leads \<lparr>state = START_FIELD, field = [], fields_list = done\<rparr> (join_append (PyStr f)) \<sigma>'"
    and n: "parse_process_char \<sigma>' (Some LF) = Inr \<lparr>state = EAT_CRNL, field = [], fields_list = done @ [f]\<rparr>"
    by blast
  from l assms(2) obtain self' cur' where
    f: "feed self' cur' = Inr \<sigma>'"
    and r: "\<forall>rest. reader_rows self (readlines cur (join_append (PyStr f) @ rest))
              = reader_rows self' (readlines cur' rest)"
    unfolding leads_def by blast
  have e: "parse_process_char \<lparr>state = EAT_CRNL, field = [], fields_list = done @ [f]\<rparr> None
      = Inr \<lparr>state = START_RECORD, field = [], fields_list = done @ [f]\<rparr>"
    by (simp add: step_defs)
  from r have "reader_rows self (readlines cur (join_append (PyStr f) @ LF # rest))
      = reader_rows self' (readlines cur' (LF # rest))" by blast
  also have "\<dots> = (case reader_rows parse_reset (readlines [] rest) of
                (rows, e) \<Rightarrow> ((done @ [f]) # rows, e))"
    using reader_rows_LF [OF f n e] by simp
  finally show ?thesis .
qed

text \<open>A row of two or more fields and the end of its line.\<close>

lemma row_text_Cons2: "row_text (g # f # fs) = join_append (PyStr g) @ [delimiter] @ row_text (f # fs)"
  by (simp add: row_text_def)

lemma row_text_single: "row_text [f] = join_append (PyStr f)"
  by (simp add: row_text_def)

lemma row_parsed:
  assumes "feed self cur = Inr \<lparr>state = s, field = [], fields_list = done\<rparr>"
    and "s = START_RECORD \<or> s = START_FIELD"
    and "fs \<noteq> []"
    and "\<forall>f \<in> set (g # fs). length f \<le> field_limit"
  shows "reader_rows self (readlines cur (row_text (g # fs) @ LF # rest))
           = (case reader_rows parse_reset (readlines [] rest) of
                (rows, e) \<Rightarrow> ((done @ g # fs) # rows, e))"
  using assms
proof (induction fs arbitrary: g s "done" self cur)
  case Nil
  then show ?case by simp
next
  case (Cons f fs)
  note IH = Cons.IH and prems = Cons.prems
  have "leads \<lparr>state = s, field = [], fields_list = done\<rparr> (join_append (PyStr g) @ [delimiter])
          \<lparr>state = START_FIELD, field = [], fields_list = done @ [g]\<rparr>"
    using field_then_delimiter [OF prems(2)] prems(4) by simp
  with prems(1) obtain self' cur' where
    f: "feed self' cur' = Inr \<lparr>state = START_FIELD, field = [], fields_list = done @ [g]\<rparr>"
    and r: "\<forall>rest. reader_rows self (readlines cur ((join_append (PyStr g) @ [delimiter]) @ rest))
              = reader_rows self' (readlines cur' rest)"
    unfolding leads_def by blast
  have step: "reader_rows self (readlines cur (row_text (g # f # fs) @ LF # rest))
      = reader_rows self' (readlines cur' (row_text (f # fs) @ LF # rest))"
    using r by (simp add: row_text_Cons2)
  show ?case
  proof (cases fs)
    case Nil
    have "reader_rows self' (readlines cur' (row_text [f] @ LF # rest))
        = (case reader_rows parse_reset (readlines [] rest) of
             (rows, e) \<Rightarrow> (((done @ [g]) @ [f]) # rows, e))"
      unfolding row_text_single
      using field_then_newline [OF _ f, of f rest] prems(4) by simp
    with step Nil show ?thesis by simp
  next
    case (Cons f' fs')
    have "reader_rows self' (readlines cur' (row_text (f # fs) @ LF # rest))
        = (case reader_rows parse_reset (readlines [] rest) of
             (rows, e) \<Rightarrow> (((done @ [g]) @ f # fs) # rows, e))"
      using IH [OF f, where g = f] Cons prems(4) by simp
    with step show ?thesis by simp
  qed
qed

lemma rows_parsed:
  assumes "\<forall>row \<in> set rows. 2 \<le> length row \<and> (\<forall>f \<in> set row. length f \<le> field_limit)"
  shows "csv_reader (readlines [] (concat (map (\<lambda>row. row_text row @ [LF]) rows))) = (rows, None)"
  using assms
proof (induction rows)
  case Nil
  then show ?case by (simp add: csv_reader_def parse_reset_def)
next
  case (Cons row rows)
  from Cons.prems obtain g f fs where row: "row = g # f # fs"
    by (cases row; simp; rename_tac ys; case_tac ys; simp)
  have f: "feed parse_reset [] = Inr \<lparr>state = START_RECORD, field = [], fields_list = []\<rparr>"
    by (simp add: parse_reset_def)
  have "reader_rows parse_reset (readlines [] (row_text (g # f # fs) @ LF # concat (map (\<lambda>row. row_text row @ [LF]) rows)))
      = (case reader_rows parse_reset (readlines [] (concat (map (\<lambda>row. row_text row @ [LF]) rows))) of
           (rows, e) \<Rightarrow> (([] @ g # f # fs) # rows, e))"
    using row_parsed [OF f, of "f # fs" g] Cons.prems row by simp
  with Cons.IH Cons.prems row show ?case by (simp add: csv_reader_def)
qed

text \<open>What the writer produces, and what reading it in universal-newlines mode gives.\<close>

lemma storable_PyStr: "storable v \<Longrightarrow> PyStr (the_str v) = v"
  by (cases v) (simp_all add: storable_def the_str_def)

lemma storable_the_str: "storable v \<Longrightarrow> CR \<notin> set (the_str v) \<and> length (the_str v) \<le> field_limit"
  by (cases v) (simp_all add: storable_def the_str_def)

lemma translate_chunk:
  "CR \<notin> set s \<Longrightarrow>
     translate_newlines False (s @ CR # LF # rest) = s @ LF # translate_newlines False rest"
  by (induction s) (auto simp: special_chars)

lemma set_join_append_data: "set (join_append_data s) \<subseteq> insert quotechar (set s)"
  by (induction s) auto

lemma set_join_append: "set (join_append (PyStr s)) \<subseteq> insert quotechar (set s)"
  using set_join_append_data [of s] by (auto simp: join_append_def join_append_str_def)

lemma set_join_fields: "set (join_fields fs) \<subseteq> insert delimiter (\<Union> (set ` set fs))"
  by (induction fs rule: join_fields.induct) auto

lemma CR_row_text:
  assumes "\<forall>f \<in> set row. CR \<notin> set f"
  shows "CR \<notin> set (row_text row)"
proof
  assume "CR \<in> set (row_text row)"
  then have "CR \<in> \<Union> (set ` set (map (\<lambda>f. join_append (PyStr f)) row))"
    using set_join_fields [of "map (\<lambda>f. join_append (PyStr f)) row"]
    by (auto simp: row_text_def special_chars)
  then obtain f where "f \<in> set row" and "CR \<in> set (join_append (PyStr f))" by auto
  with set_join_append [of f] assms show False by (auto simp: special_chars)
qed

lemma row_text_nonempty: "2 \<le> length row \<Longrightarrow> row_text row \<noteq> []"
  by (cases row; simp; rename_tac ys; case_tac ys; simp add: row_text_def)

lemma writerow_row_text:
  "2 \<le> length row \<Longrightarrow> writerow (map PyStr row) = row_text row @ [CR, LF]"
  using row_text_nonempty [of row]
  by (simp add: writerow_def row_text_def lineterminator_def comp_def)

lemma translate_rows:
  assumes "\<forall>row \<in> set rows. 2 \<le> length row \<and> (\<forall>f \<in> set row. CR \<notin> set f)"
  shows "translate_newlines False (concat (map (\<lambda>row. writerow (map PyStr row)) rows))
           = concat (map (\<lambda>row. row_text row @ [LF]) rows)"
  using assms
proof (induction rows)
  case Nil
  then show ?case by simp
next
  case (Cons row rows)
  have "CR \<notin> set (row_text row)" using Cons.prems by (simp add: CR_row_text)
  from translate_chunk [OF this] Cons show ?case
    by (simp add: writerow_row_text)
qed

lemma written_rows_parsed:
  assumes "\<forall>row \<in> set rows. 2 \<le> length row
             \<and> (\<forall>f \<in> set row. CR \<notin> set f \<and> length f \<le> field_limit)"
  shows "csv_reader (open_r_lines (concat (map (\<lambda>row. writerow (map PyStr row)) rows))) = (rows, None)"
proof -
  have "translate_newlines False (concat (map (\<lambda>row. writerow (map PyStr row)) rows))
           = concat (map (\<lambda>row. row_text row @ [LF]) rows)"
    using assms by (intro translate_rows) auto
  moreover have "csv_reader (readlines [] (concat (map (\<lambda>row. row_text row @ [LF]) rows))) = (rows, None)"
    using assms by (intro rows_parsed) auto
  ultimately show ?thesis by (simp add: open_r_lines_def)
qed

text \<open>The rows of a stored list of records, and the records that the loader makes of them.\<close>

lemma stored_row_PyStr:
  "list_all storable (row_of_Record r) \<Longrightarrow> map PyStr (stored_row r) = row_of_Record r"
  by (simp add: stored_row_def row_of_Record_def storable_PyStr)

lemma csv_text_rows:
  assumes "\<forall>r \<in> set recs. list_all storable (row_of_Record r)"
  shows "csv_text recs
           = concat (map (\<lambda>row. writerow (map PyStr row)) (column_names # map stored_row recs))"
proof -
  have "map (\<lambda>r. writerow (row_of_Record r)) recs = map (\<lambda>r. writerow (map PyStr (stored_row r))) recs"
    using assms by (simp add: stored_row_PyStr)
  then have "concat (map (\<lambda>r. writerow (row_of_Record r)) recs)
      = concat (map (\<lambda>r. writerow (map PyStr (stored_row r))) recs)"
    by (rule arg_cong)
  then show ?thesis by (simp add: csv_text_def comp_def)
qed

lemma column_names_plain: "\<forall>f \<in> set column_names. CR \<notin> set f \<and> length f \<le> field_limit"
  by (simp add: column_names_def CR_def field_limit_def)

lemma Record_of_stored_row:
  assumes "list_all storable (row_of_Record r)"
  shows "Record_of_row (DictReader_row column_names (stored_row r)) = Inr r"
proof -
  have "Record_of_row (DictReader_row column_names (stored_row r))
      = Inr (mk_Record (PyStr (the_str (source r))) (PyStr (the_str (latin_name r)))
               (PyStr (the_str (english_name r))) (PyStr (the_str (french_name r)))
               (PyStr (the_str (year r))) (PyStr (the_str (month r)))
               (PyStr (the_str (number_otoliths r))))"
    by (simp add: Record_of_row_def DictReader_row_def stored_row_def row_of_Record_def
        column_names_def getitem_def bind_exn_def)
  also have "\<dots> = Inr r"
    using assms by (simp add: row_of_Record_def storable_PyStr mk_Record_def)
  finally show ?thesis .
qed

lemma load_stored_rows:
  assumes "\<forall>r \<in> set recs. list_all storable (row_of_Record r)"
  shows "load_rows (map (\<lambda>r. DictReader_row column_names (stored_row r)) recs) acc = (acc @ recs, None)"
  using assms by (induction recs arbitrary: acc) (simp_all add: Record_of_stored_row)

lemma stored_row_nonempty: "stored_row r \<noteq> []" "length (stored_row r) = 7"
  by (simp_all add: stored_row_def row_of_Record_def)

text \<open>
  Saving a repository whose records are all storable and constructing a repository on
  the written file gives the same records, and the load prints nothing.
\<close>

lemma save_then_load_round_trip:
  assumes "\<forall>r \<in> set (records self). list_all storable (row_of_Record r)"
    and "\<forall>msg. files w fname \<noteq> Denied msg"
  shows "records (fst (BusinessLayer_init fname fmt (snd (save_records fname self w)))) = records self
       \<and> snd (BusinessLayer_init fname fmt (snd (save_records fname self w)))
           = snd (save_records fname self w)"
proof -
  let ?w = "snd (save_records fname self w)"
  let ?rows = "column_names # map stored_row (records self)"
  have written: "files ?w fname = Content (csv_text (records self))"
    using assms(2) by (cases "files w fname") (simp_all add: save_records_def print_def)
  have rows: "\<forall>row \<in> set ?rows. 2 \<le> length row
             \<and> (\<forall>f \<in> set row. CR \<notin> set f \<and> length f \<le> field_limit)"
  proof
    fix row assume "row \<in> set ?rows"
    then consider "row = column_names" | r where "r \<in> set (records self)" "row = stored_row r" by auto
    then show "2 \<le> length row \<and> (\<forall>f \<in> set row. CR \<notin> set f \<and> length f \<le> field_limit)"
    proof cases
      case 1
      then show ?thesis using column_names_plain by (simp add: column_names_def)
    next
      case 2
      with assms(1) have "list_all storable (row_of_Record r)" by blast
      then have "\<forall>f \<in> set (stored_row r). CR \<notin> set f \<and> length f \<le> field_limit"
        by (auto simp: stored_row_def list_all_iff storable_the_str)
      with 2 show ?thesis by (simp add: stored_row_nonempty)
    qed
  qed
  have parsed: "csv_reader (open_r_lines (csv_text (records self))) = (?rows, None)"
    unfolding csv_text_rows [OF assms(1)] by (rule written_rows_parsed [OF rows])
  have dicts: "DictReader ?rows = map (\<lambda>r. DictReader_row column_names (stored_row r)) (records self)"
    by (simp add: DictReader_def stored_row_nonempty filter_map comp_def)
  show ?thesis
    by (simp add: BusinessLayer_init_def load_records_def written parsed dicts
        load_stored_rows [OF assms(1)])
qed

lemma cr_rows:
  "csv_reader (open_r_lines (csv_text [cr_record])) =
     ([column_names, [[CHR ''a'', LF, CHR ''b''], ''L'', ''E'', ''F'', ''2020'', ''June'', ''7'']], None)"
  by (simp add: csv_reader_def open_r_lines_def csv_text_def writerow_def join_append_def join_append_str_def
      must_quote_def lineterminator_def row_of_Record_def cr_record_def mk_Record_def
      column_names_def reader_defs)

text \<open>
  Claim C5 (the code departs from it).  \<open>save_records\<close> writes the record with the
  carriage return inside a quoted field, as it is.  A repository constructed on the
  written file reads it in universal-newlines mode, so the field comes back with a
  line feed in the place of the carriage return: the loaded record differs from the
  saved one in its first field.
\<close>

theorem save_then_load_carriage_return:
  "records (fst (BusinessLayer_init ''out.csv'' DefaultRecordFormatter_format_record
      (snd (save_records ''out.csv'' (sample_layer\<lparr>records := [cr_record]\<rparr>) quiet_env))))
     = [cr_record\<lparr>source := PyStr [CHR ''a'', LF, CHR ''b'']\<rparr>]
   \<and> source cr_record = PyStr [CHR ''a'', CR, CHR ''b'']
   \<and> cr_record\<lparr>source := PyStr [CHR ''a'', LF, CHR ''b'']\<rparr> \<noteq> cr_record"
  by (simp add: BusinessLayer_init_def load_records_def save_records_def quiet_env_def print_def
      cr_rows load_defs)
     (simp add: cr_record_def mk_Record_def CR_def LF_def)

section \<open>The menu loop\<close>

text \<open>
  Claim C2 (the code departs from it).  After the choice \<open>5\<close> (delete) or \<open>4\<close>
  (select, display, edit), the text \<open>abc\<close> at the prompt for the index makes \<open>int\<close>
  raise \<open>ValueError\<close>; nothing catches it, the loop ends with it, and the input \<open>7\<close>
  that follows is never read.
\<close>

theorem start_crashes_on_text_index:
  "start sample_layer (quiet_env\<lparr>stdin := [''5'', ''abc'', ''7'']\<rparr>) = Inl (ValueError ''abc'')
   \<and> start sample_layer (quiet_env\<lparr>stdin := [''4'', ''abc'', ''7'']\<rparr>) = Inl (ValueError ''abc'')"
  by (simp add: start.simps menu_turn_def py_input_def prompted_def display_menu_def print_def
      PresentationLayer_delete_record_def select_display_edit_record_def bind_exn_def
      py_int_def strip_def is_space_def is_digit_def max_str_digits_def quiet_env_def)

end
